theory Spec2Isabelle
  imports Complex_Main "HOL-Library.Word"
begin

section \<open>JavaScript strings and parsed JSON values\<close>

text \<open>
  A JavaScript string is a sequence of 16-bit code units. \<open>lit\<close> turns an ASCII literal
  into one; code units beyond ASCII (the emoji of the error messages) are written as
  numbers.
\<close>

type_synonym u16 = "16 word"
type_synonym jsstring = "u16 list"

definition lit :: "string \<Rightarrow> jsstring" where
  "lit s = map of_char s"

text \<open>
  ECMAScript's LineTerminator and WhiteSpace code points. \<open>String.prototype.trim\<close> strips
  both classes, and the regular-expression class \<open>\s\<close> is their union as well.
\<close>

definition is_line_terminator :: "u16 \<Rightarrow> bool" where
  "is_line_terminator c = (c = 0x000A \<or> c = 0x000D \<or> c = 0x2028 \<or> c = 0x2029)"

definition is_white_space :: "u16 \<Rightarrow> bool" where
  "is_white_space c =
     (c = 0x0009 \<or> c = 0x000B \<or> c = 0x000C \<or> c = 0x0020 \<or> c = 0x00A0 \<or> c = 0x1680
      \<or> (0x2000 \<le> c \<and> c \<le> 0x200A) \<or> c = 0x202F \<or> c = 0x205F \<or> c = 0x3000
      \<or> c = 0xFEFF)"

definition is_space :: "u16 \<Rightarrow> bool" where
  "is_space c = (is_white_space c \<or> is_line_terminator c)"

definition js_trim :: "jsstring \<Rightarrow> jsstring" where
  "js_trim s = rev (dropWhile is_space (rev (dropWhile is_space s)))"

text \<open>
  The value of a JSON number after parsing: a double, of which only the numeric value
  matters here (zero is falsy). \<open>JSON.parse\<close> yields no NaN; a literal out of range
  parses to an infinity.
\<close>

datatype jsnum = Finite rat | PosInfinity | NegInfinity

datatype json =
    JNull
  | JBool bool
  | JNum jsnum
  | JStr jsstring
  | JArr "json list"
  | JObj "(jsstring \<times> json) list"

text \<open>ToBoolean: what \<open>||\<close>, \<open>!\<close> and \<open>if\<close> test.\<close>

fun truthy :: "json \<Rightarrow> bool" where
  "truthy JNull = False"
| "truthy (JBool b) = b"
| "truthy (JNum n) = (n \<noteq> Finite 0)"
| "truthy (JStr s) = (s \<noteq> [])"
| "truthy (JArr xs) = True"
| "truthy (JObj kvs) = True"

text \<open>
  The exceptions the \<open>try\<close> block of \<open>generateFlowchart\<close> can catch, by \<open>error.name\<close>:
  the abort of the request, a \<open>TypeError\<close> (a failed fetch, or a property read on
  \<open>null\<close>), the \<open>SyntaxError\<close> of a body that is not JSON, and the \<open>Error\<close> thrown for
  a status that is not ok.
\<close>

datatype js_error = AbortError | TypeError | SyntaxError | HttpStatusError nat

text \<open>
  \<open>data.name\<close> on a value that is not \<open>null\<close>: the member of an object (the list holds
  the parsed object's own members), \<open>undefined\<close> (\<open>None\<close>) when there is none. This is
  the read of the five response fields, none of which is a property that strings,
  arrays, numbers or booleans inherit. The read on \<open>null\<close> throws and is a case of the
  caller.
\<close>

fun read_field :: "json \<Rightarrow> jsstring \<Rightarrow> json option" where
  "read_field (JObj kvs) k = map_of kvs k"
| "read_field v k = None"

text \<open>\<open>v || d\<close> for a value just read.\<close>

fun or_default :: "json option \<Rightarrow> json \<Rightarrow> json" where
  "or_default None d = d"
| "or_default (Some v) d = (if truthy v then v else d)"

section \<open>The regular expression of the default optimized code\<close>

text \<open>
  \<open>code.replace(/for\s+\w+\s+in\s+range\(.*\):/g, ...)\<close>. The pattern is a sequence of
  single characters and of greedy repetitions of a character class; \<open>regex_match\<close> is the
  backtracking matcher anchored at the start of its input: a repetition first takes one
  more character and only when the rest then fails gives it back. It returns the number
  of code units matched.
\<close>

datatype regex_item = Chr u16 | Plus "u16 \<Rightarrow> bool" | Star "u16 \<Rightarrow> bool"

fun regex_match :: "regex_item list \<Rightarrow> jsstring \<Rightarrow> nat option" where
  "regex_match [] s = Some 0"
| "regex_match (Chr c # r) [] = None"
| "regex_match (Chr c # r) (x # xs) =
     (if x = c then map_option Suc (regex_match r xs) else None)"
| "regex_match (Plus p # r) [] = None"
| "regex_match (Plus p # r) (x # xs) =
     (if p x then map_option Suc (regex_match (Star p # r) xs) else None)"
| "regex_match (Star p # r) [] = regex_match r []"
| "regex_match (Star p # r) (x # xs) =
     (if p x then
        (case regex_match (Star p # r) xs of
           Some n \<Rightarrow> Some (Suc n)
         | None \<Rightarrow> regex_match r (x # xs))
      else regex_match r (x # xs))"

definition is_word_char :: "u16 \<Rightarrow> bool" where
  "is_word_char c =
     ((0x41 \<le> c \<and> c \<le> 0x5A) \<or> (0x61 \<le> c \<and> c \<le> 0x7A) \<or> (0x30 \<le> c \<and> c \<le> 0x39)
      \<or> c = 0x5F)"

definition is_dot :: "u16 \<Rightarrow> bool" where
  "is_dot c = (\<not> is_line_terminator c)"

definition for_range_regex :: "regex_item list" where
  "for_range_regex =
     map Chr (lit ''for'') @ [Plus is_space, Plus is_word_char, Plus is_space]
     @ map Chr (lit ''in'') @ [Plus is_space] @ map Chr (lit ''range('')
     @ [Star is_dot] @ map Chr (lit ''):'')"

definition optimized_replacement :: jsstring where
  "optimized_replacement =
     lit ''# Optimized: Use dictionary for faster lookups'' @ [0x000A]
     @ lit ''lookup_dict = {}'' @ [0x000A]
     @ lit ''for key, value in enumerate(range(...)):'' @ [0x000A]
     @ lit ''    lookup_dict[key] = value''"

text \<open>
  The global replace: at each position the anchored match is tried; a match is replaced
  (the replacement holds no \<open>$\<close> pattern) and the scan goes on after it, otherwise the
  code unit is copied. A match starts with \<open>for\<close>, so it has \<open>n \<ge> 3\<close> code units and
  \<open>drop (n - 1) cs\<close> is the input after it.
\<close>

fun replace_for_range :: "jsstring \<Rightarrow> jsstring" where
  "replace_for_range [] = []"
| "replace_for_range (c # cs) =
     (case regex_match for_range_regex (c # cs) of
        Some n \<Rightarrow> optimized_replacement @ replace_for_range (drop (n - 1) cs)
      | None \<Rightarrow> c # replace_for_range cs)"

section \<open>The state of FlowchartGenerator\<close>

text \<open>One field for each \<open>useState\<close> of the component, in the source's order.\<close>

record session =
  code :: jsstring
  language :: jsstring
  isDropdownOpen :: bool
  flowchartSvg :: json
  executionSteps :: json
  currentStep :: int
  isPlaying :: bool
  loading :: bool
  darkMode :: bool
  errorMsg :: jsstring
  scale :: rat
  accentColor :: jsstring
  showToast :: bool
  showMainUI :: bool
  complexityAnalysis :: json
  optimizationSuggestions :: json
  memoryAnalysis :: json
  showOptimizedCode :: bool
  showExecutionPanel :: bool
  showMemoryDetails :: bool
  memoryToast :: jsstring

definition initial_session :: session where
  "initial_session =
     \<lparr> code = [], language = lit ''python'', isDropdownOpen = False,
       flowchartSvg = JStr [], executionSteps = JArr [], currentStep = -1,
       isPlaying = False, loading = False, darkMode = False, errorMsg = [],
       scale = 1, accentColor = lit ''#4caf50'', showToast = False,
       showMainUI = False, complexityAnalysis = JNull,
       optimizationSuggestions = JNull, memoryAnalysis = JNull,
       showOptimizedCode = False, showExecutionPanel = True,
       showMemoryDetails = False, memoryToast = [] \<rparr>"

definition msg_enter_code :: jsstring where
  "msg_enter_code = [0x26A0, 0xFE0F] @ lit '' Please enter some code.''"

definition msg_error_generating :: jsstring where
  "msg_error_generating = 0x274C # lit '' Error generating flowchart.''"

definition msg_timed_out :: jsstring where
  "msg_timed_out = 0x274C # lit '' Request timed out. Please try again.''"

definition msg_server_failed :: jsstring where
  "msg_server_failed = 0x274C # lit '' Server failed. Check console.''"

section \<open>generateFlowchart\<close>

text \<open>The JSON body of the POST request.\<close>

record request =
  body_code :: jsstring
  body_language :: jsstring
  body_advanced :: bool

text \<open>
  The part of \<open>generateFlowchart\<close> up to the \<open>await\<close> of \<open>fetch\<close>: the new state and the
  request sent, \<open>None\<close> when the function returns without calling \<open>fetch\<close>.
\<close>

definition generateFlowchart_begin :: "session \<Rightarrow> session \<times> request option" where
  "generateFlowchart_begin s =
     (if js_trim (code s) = [] then (s\<lparr>errorMsg := msg_enter_code\<rparr>, None)
      else
        (s\<lparr> errorMsg := [], loading := True, currentStep := -1,
            executionSteps := JArr [], isPlaying := False,
            complexityAnalysis := JNull, optimizationSuggestions := JNull,
            memoryAnalysis := JNull, showOptimizedCode := False,
            showMemoryDetails := False \<rparr>,
         Some \<lparr> body_code = code s, body_language = language s,
                body_advanced = True \<rparr>))"

text \<open>
  The object built from the parsed body (\<open>advancedData\<close>). Reading \<open>data.flowchart\<close>
  throws a \<open>TypeError\<close> when the body is \<open>null\<close>; the later reads cannot throw. The
  default of \<open>optimization_suggestions\<close> is computed from the submitted code.
\<close>

record advancedData =
  flowchart :: json
  execution_steps :: json
  complexity_analysis :: json
  optimization_suggestions :: json
  memory_analysis :: json

definition default_complexity :: json where
  "default_complexity =
     JObj [(lit ''time_complexity'', JStr (lit ''O(n)'')),
           (lit ''space_complexity'', JStr (lit ''O(1)'')),
           (lit ''details'',
            JArr [JStr (lit ''Detected 1 loop, leading to linear time complexity.'')])]"

definition default_optimization :: "jsstring \<Rightarrow> json" where
  "default_optimization c =
     JObj [(lit ''suggestions'',
            JArr [JStr (lit
              ''Consider using a dictionary for faster lookups instead of nested loops.'')]),
           (lit ''optimized_code'', JStr (replace_for_range c))]"

definition default_memory :: json where
  "default_memory =
     JObj [(lit ''estimated_memory_usage'', JStr (lit ''N/A'')),
           (lit ''bottlenecks'', JArr []),
           (lit ''suggestions'', JArr [])]"

definition build_advancedData :: "jsstring \<Rightarrow> json \<Rightarrow> js_error + advancedData" where
  "build_advancedData c data =
     (case data of
        JNull \<Rightarrow> Inl TypeError
      | _ \<Rightarrow>
          Inr \<lparr> flowchart = or_default (read_field data (lit ''flowchart'')) (JStr []),
                execution_steps =
                  or_default (read_field data (lit ''execution_steps'')) (JArr []),
                complexity_analysis =
                  or_default (read_field data (lit ''complexity_analysis''))
                    default_complexity,
                optimization_suggestions =
                  or_default (read_field data (lit ''optimization_suggestions''))
                    (default_optimization c),
                memory_analysis =
                  or_default (read_field data (lit ''memory_analysis''))
                    default_memory \<rparr>)"

text \<open>
  What the two awaits of the \<open>try\<close> block deliver: \<open>fetch\<close> rejects, or resolves with a
  status and a body, whose parse by \<open>response.json()\<close> fails (\<open>None\<close>) or gives a value.
\<close>

datatype fetch_outcome = FetchRejected js_error | FetchResolved nat "json option"

definition response_ok :: "nat \<Rightarrow> bool" where
  "response_ok status = (200 \<le> status \<and> status \<le> 299)"

text \<open>
  The \<open>try\<close> block after the awaits. Every throw comes before the first setter, so an
  exception leaves the state as it was.
\<close>

definition generateFlowchart_try ::
    "request \<Rightarrow> fetch_outcome \<Rightarrow> session \<Rightarrow> js_error + session" where
  "generateFlowchart_try r out s =
     (case out of
        FetchRejected e \<Rightarrow> Inl e
      | FetchResolved status body \<Rightarrow>
          if \<not> response_ok status then Inl (HttpStatusError status)
          else
            (case body of
               None \<Rightarrow> Inl SyntaxError
             | Some data \<Rightarrow>
                 (case build_advancedData (body_code r) data of
                    Inl e \<Rightarrow> Inl e
                  | Inr a \<Rightarrow>
                      Inr (let s' = s\<lparr> flowchartSvg := flowchart a,
                                         executionSteps := execution_steps a,
                                         complexityAnalysis := complexity_analysis a,
                                         optimizationSuggestions :=
                                           optimization_suggestions a,
                                         memoryAnalysis := memory_analysis a \<rparr>
                           in if truthy (flowchart a) then s'
                              else s'\<lparr>errorMsg := msg_error_generating\<rparr>))))"

definition generateFlowchart_catch :: "js_error \<Rightarrow> session \<Rightarrow> session" where
  "generateFlowchart_catch e s =
     (if e = AbortError then s\<lparr>errorMsg := msg_timed_out\<rparr>
      else s\<lparr>errorMsg := msg_server_failed\<rparr>)"

text \<open>
  The rest of \<open>generateFlowchart\<close>, run when the awaited promise settles, on the state of
  that moment: \<open>try\<close>, \<open>catch\<close>, \<open>finally\<close>.
\<close>

definition generateFlowchart_resume ::
    "request \<Rightarrow> fetch_outcome \<Rightarrow> session \<Rightarrow> session" where
  "generateFlowchart_resume r out s =
     (case generateFlowchart_try r out s of
        Inl e \<Rightarrow> generateFlowchart_catch e s
      | Inr s' \<Rightarrow> s') \<lparr>loading := False\<rparr>"





definition handleRefresh :: "session \<Rightarrow> session" where
  "handleRefresh s =
     s\<lparr> code := [], language := lit ''python'', isDropdownOpen := False,
        flowchartSvg := JStr [], executionSteps := JArr [], currentStep := -1,
        isPlaying := False, loading := False, errorMsg := [], scale := 1,
        showToast := False, complexityAnalysis := JNull,
        optimizationSuggestions := JNull, memoryAnalysis := JNull,
        showOptimizedCode := False, showMemoryDetails := False,
        showMainUI := True \<rparr>"

text \<open>The five slots of the analysis result that the page shows.\<close>

definition visible_result :: "session \<Rightarrow> json \<times> json \<times> json \<times> json \<times> json" where
  "visible_result s =
     (flowchartSvg s, executionSteps s, complexityAnalysis s,
      optimizationSuggestions s, memoryAnalysis s)"

section \<open>Step playback\<close>

text \<open>
  \<open>executionSteps.length\<close>: the length of an array or of a string. Any other value the
  slot can hold has no \<open>length\<close> (\<open>undefined\<close>, here \<open>None\<close>): every comparison with it
  is false, so the ticker is not installed and the step buttons are not rendered. (An
  object with a member of its own called \<open>length\<close> is read as having none.)
\<close>

fun steps_length :: "json \<Rightarrow> int option" where
  "steps_length (JArr xs) = Some (int (length xs))"
| "steps_length (JStr s) = Some (int (length s))"
| "steps_length v = None"

text \<open>
  The effect on \<open>[isPlaying, currentStep, executionSteps]\<close> installs the one-second
  interval exactly when its condition holds for the current values, and clears it on
  every change of them.
\<close>

definition ticker_installed :: "session \<Rightarrow> bool" where
  "ticker_installed s =
     (isPlaying s \<and>
      (case steps_length (executionSteps s) of
         Some n \<Rightarrow> currentStep s < n - 1
       | None \<Rightarrow> False))"

text \<open>The callback of the interval: the updater given to \<open>setCurrentStep\<close>.\<close>

definition interval_callback :: "session \<Rightarrow> session" where
  "interval_callback s =
     (case steps_length (executionSteps s) of
        Some n \<Rightarrow>
          if currentStep s + 1 \<ge> n then s\<lparr>isPlaying := False\<rparr>
          else s\<lparr>currentStep := currentStep s + 1\<rparr>
      | None \<Rightarrow> s\<lparr>currentStep := currentStep s + 1\<rparr>)"

text \<open>One second passes: the callback runs if the interval is installed.\<close>

definition tick :: "session \<Rightarrow> session" where
  "tick s = (if ticker_installed s then interval_callback s else s)"

text \<open>
  The Play/Pause, Step Back and Step Forward buttons are on the page when the main page
  is shown, \<open>flowchartSvg\<close> is truthy and \<open>executionSteps.length > 0\<close>.
\<close>

definition step_controls_rendered :: "session \<Rightarrow> bool" where
  "step_controls_rendered s =
     (showMainUI s \<and> truthy (flowchartSvg s) \<and>
      (case steps_length (executionSteps s) of
         Some n \<Rightarrow> 0 < n
       | None \<Rightarrow> False))"

text \<open>
  A click on each of the three buttons. A button that is not on the page, or that is
  disabled, runs no handler: Step Back has \<open>disabled={currentStep <= -1}\<close> and Step
  Forward has \<open>disabled={currentStep >= executionSteps.length - 1}\<close>. Otherwise the
  \<open>onClick\<close> body runs.
\<close>

definition togglePlay :: "session \<Rightarrow> session" where
  "togglePlay s =
     (if step_controls_rendered s then s\<lparr>isPlaying := \<not> isPlaying s\<rparr> else s)"

definition stepBack :: "session \<Rightarrow> session" where
  "stepBack s =
     (if step_controls_rendered s \<and> \<not> currentStep s \<le> -1 then
        s\<lparr>isPlaying := False, currentStep := max (currentStep s - 1) (-1)\<rparr>
      else s)"

definition stepForward :: "session \<Rightarrow> session" where
  "stepForward s =
     (case steps_length (executionSteps s) of
        Some n \<Rightarrow>
          if step_controls_rendered s \<and> \<not> currentStep s \<ge> n - 1 then
            s\<lparr>isPlaying := False, currentStep := min (currentStep s + 1) (n - 1)\<rparr>
          else s
      | None \<Rightarrow> s)"

section \<open>The page: events and requests in flight\<close>

text \<open>
  The session together with the calls of \<open>generateFlowchart\<close> that wait for their
  \<open>fetch\<close>. The Generate button is disabled while \<open>loading\<close>; the Refresh button and the
  text area are not, and \<open>handleRefresh\<close> cancels no request. The main page is rendered
  once the intro has completed.
\<close>

record page =
  ui :: session
  inflight :: "request list"

datatype event =
    IntroComplete
  | EditCode jsstring
  | ClickGenerate
  | ClickRefresh
  | Settle nat fetch_outcome

fun dispatch :: "page \<Rightarrow> event \<Rightarrow> page" where
  "dispatch p IntroComplete = p\<lparr>ui := (ui p)\<lparr>showMainUI := True\<rparr>\<rparr>"
| "dispatch p (EditCode t) =
     (if showMainUI (ui p) then p\<lparr>ui := (ui p)\<lparr>code := t\<rparr>\<rparr> else p)"
| "dispatch p ClickGenerate =
     (if showMainUI (ui p) \<and> \<not> loading (ui p) then
        (case generateFlowchart_begin (ui p) of
           (s, None) \<Rightarrow> p\<lparr>ui := s\<rparr>
         | (s, Some r) \<Rightarrow> \<lparr>ui = s, inflight = inflight p @ [r]\<rparr>)
      else p)"
| "dispatch p ClickRefresh =
     (if showMainUI (ui p) then p\<lparr>ui := handleRefresh (ui p)\<rparr> else p)"
| "dispatch p (Settle i out) =
     (if i < length (inflight p) then
        \<lparr> ui = generateFlowchart_resume (inflight p ! i) out (ui p),
          inflight = take i (inflight p) @ drop (Suc i) (inflight p) \<rparr>
      else p)"

definition run :: "event list \<Rightarrow> page \<Rightarrow> page" where
  "run es p = foldl dispatch p es"

definition initial_page :: page where
  "initial_page = \<lparr>ui = initial_session, inflight = []\<rparr>"

section \<open>Notions used to state the properties\<close>

text \<open>A response field that is absent or falsy: the case in which \<open>||\<close> takes the default.\<close>

definition missing :: "json \<Rightarrow> jsstring \<Rightarrow> bool" where
  "missing data k = (case read_field data k of None \<Rightarrow> True | Some v \<Rightarrow> \<not> truthy v)"


section \<open>Example data\<close>

text \<open>
  A response with a flowchart and one execution step and no analysis fields, and the run
  that submits \<open>print(1)\<close> and receives it; then a second submit of other code.
\<close>

definition example_step :: json where
  "example_step =
     JObj [(lit ''node_id'', JStr (lit ''n1'')), (lit ''description'', JStr (lit ''print''))]"

definition example_response :: json where
  "example_response =
     JObj [(lit ''flowchart'', JStr (lit ''<svg/>'')),
           (lit ''execution_steps'', JArr [example_step])]"

definition example_run :: "event list" where
  "example_run =
     [IntroComplete, EditCode (lit ''print(1)''), ClickGenerate,
      Settle 0 (FetchResolved 200 (Some example_response))]"

definition resubmit_run :: "event list" where
  "resubmit_run = example_run @ [EditCode (lit ''print(2)''), ClickGenerate]"

text \<open>The page after \<open>example_run\<close>, with Play clicked.\<close>

definition playing_session :: session where
  "playing_session = togglePlay (ui (run example_run initial_page))"

text \<open>
  Two submits that overlap: the first is sent, Refresh re-enables the Generate button
  while its request is still in flight, the second is sent and answered. The answer to
  the first comes after that.
\<close>

definition response_a :: json where
  "response_a = JObj [(lit ''flowchart'', JStr (lit ''<svg>a</svg>''))]"

definition response_b :: json where
  "response_b = JObj [(lit ''flowchart'', JStr (lit ''<svg>b</svg>''))]"

definition overlap_run :: "event list" where
  "overlap_run =
     [IntroComplete, EditCode (lit ''a''), ClickGenerate, ClickRefresh,
      EditCode (lit ''b''), ClickGenerate,
      Settle 1 (FetchResolved 200 (Some response_b))]"

definition stale_arrival :: event where
  "stale_arrival = Settle 0 (FetchResolved 200 (Some response_a))"


definition request_of :: "jsstring \<Rightarrow> request" where
  "request_of c = \<lparr>body_code = c, body_language = lit ''python'', body_advanced = True\<rparr>"

section \<open>Evaluation and basic facts\<close>

lemmas eval_defs = lit_def is_space_def is_white_space_def is_line_terminator_def
  js_trim_def generateFlowchart_begin_def generateFlowchart_resume_def
  generateFlowchart_try_def generateFlowchart_catch_def build_advancedData_def
  response_ok_def run_def initial_page_def initial_session_def handleRefresh_def
  example_response_def example_run_def

text \<open>The trimmed string is empty exactly when every code unit is white space.\<close>

lemma js_trim_blank: "js_trim s = [] \<longleftrightarrow> list_all is_space s"
proof
  assume "js_trim s = []"
  then have a: "\<forall>x\<in>set (dropWhile is_space s). is_space x"
    by (simp add: js_trim_def)
  have "dropWhile is_space s = []"
  proof (rule ccontr)
    assume n: "dropWhile is_space s \<noteq> []"
    then have "\<not> is_space (hd (dropWhile is_space s))" by (rule hd_dropWhile)
    moreover have "hd (dropWhile is_space s) \<in> set (dropWhile is_space s)"
      using n by simp
    ultimately show False using a by blast
  qed
  then show "list_all is_space s"
    by (simp add: list_all_iff)
next
  assume "list_all is_space s"
  then have "dropWhile is_space s = []"
    by (simp add: list_all_iff)
  then show "js_trim s = []"
    unfolding js_trim_def by (simp only: rev.simps dropWhile.simps)
qed

subsection \<open>The regular expression\<close>

lemma regex_match_le: "regex_match r s = Some n \<Longrightarrow> n \<le> length s"
proof (induction r s arbitrary: n rule: regex_match.induct)
  case (7 p r x xs)
  then show ?case by (auto split: if_splits option.splits)
qed (auto split: if_splits)

lemma three_chars_match_ge3:
  "regex_match (Chr a # Chr b # Chr c # r) s = Some n \<Longrightarrow> 3 \<le> n"
proof (cases s)
  case Nil
  then show "regex_match (Chr a # Chr b # Chr c # r) s = Some n \<Longrightarrow> 3 \<le> n" by simp
next
  case s1: (Cons x1 s1)
  assume m: "regex_match (Chr a # Chr b # Chr c # r) s = Some n"
  show "3 \<le> n"
  proof (cases s1)
    case Nil
    then show ?thesis using m s1 by (simp split: if_splits)
  next
    case s2: (Cons x2 s2)
    show ?thesis
    proof (cases s2)
      case Nil
      then show ?thesis using m s1 s2 by (simp split: if_splits)
    next
      case (Cons x3 s3)
      then show ?thesis using m s1 s2 by (auto split: if_splits)
    qed
  qed
qed

lemma for_range_match_ge3: "regex_match for_range_regex s = Some n \<Longrightarrow> 3 \<le> n"
  unfolding for_range_regex_def lit_def by (simp only: list.map append.simps)
    (rule three_chars_match_ge3)

text \<open>After a match of \<open>n\<close> code units the scan goes on with the input behind them.\<close>

lemma replace_for_range_match:
  assumes "regex_match for_range_regex (c # cs) = Some n"
  shows "replace_for_range (c # cs) =
           optimized_replacement @ replace_for_range (drop n (c # cs))"
proof -
  from for_range_match_ge3 [OF assms] obtain m where "n = Suc m"
    by (cases n) simp_all
  then show ?thesis using assms by simp
qed

text \<open>
  The repetition \<open>.*\<close> is greedy: the match runs to the last \<open>):\<close> of the line. Code
  without such a loop is returned as it is.
\<close>

lemma replace_for_range_example:
  "replace_for_range (lit ''for  i in range(3): f():z'') = optimized_replacement @ lit ''z''"
  by (simp add: lit_def for_range_regex_def is_space_def is_white_space_def
        is_line_terminator_def is_word_char_def is_dot_def)

text \<open>Two different loops are replaced by the same text.\<close>

lemma replace_for_range_two_loops:
  "replace_for_range (lit ''for i in range(3):'') = optimized_replacement"
  "replace_for_range (lit ''for j in range(4):'') = optimized_replacement"
  by (simp_all add: lit_def for_range_regex_def is_space_def is_white_space_def
        is_line_terminator_def is_word_char_def is_dot_def)

lemma replace_for_range_no_loop: "replace_for_range (lit ''print(1)'') = lit ''print(1)''"
  by (simp add: lit_def for_range_regex_def)

subsection \<open>generateFlowchart\<close>

text \<open>
  With code that is not blank, the first part of \<open>generateFlowchart\<close> resets the cursor,
  the steps and the three analysis slots; \<open>flowchartSvg\<close> is not among the fields it sets.
\<close>

lemma begin_resets:
  assumes "js_trim (code s) \<noteq> []"
  shows "fst (generateFlowchart_begin s) =
           s\<lparr> errorMsg := [], loading := True, currentStep := -1,
              executionSteps := JArr [], isPlaying := False,
              complexityAnalysis := JNull, optimizationSuggestions := JNull,
              memoryAnalysis := JNull, showOptimizedCode := False,
              showMemoryDetails := False \<rparr>"
  using assms by (simp add: generateFlowchart_begin_def)

lemma begin_keeps_flowchart:
  "flowchartSvg (fst (generateFlowchart_begin s)) = flowchartSvg s"
  by (simp add: generateFlowchart_begin_def)

lemma or_default_missing: "missing data k \<Longrightarrow> or_default (read_field data k) d = d"
  by (auto simp: missing_def split: option.splits)

lemma build_advancedData_not_null:
  "data \<noteq> JNull \<Longrightarrow>
   build_advancedData c data =
     Inr \<lparr> flowchart = or_default (read_field data (lit ''flowchart'')) (JStr []),
           execution_steps = or_default (read_field data (lit ''execution_steps'')) (JArr []),
           complexity_analysis =
             or_default (read_field data (lit ''complexity_analysis'')) default_complexity,
           optimization_suggestions =
             or_default (read_field data (lit ''optimization_suggestions''))
               (default_optimization c),
           memory_analysis =
             or_default (read_field data (lit ''memory_analysis'')) default_memory \<rparr>"
  by (cases data) (simp_all add: build_advancedData_def)

text \<open>The state after a response with an ok status and a body that is not \<open>null\<close>.\<close>

lemma resume_ok:
  assumes "response_ok status" and "build_advancedData (body_code r) data = Inr a"
  shows "generateFlowchart_resume r (FetchResolved status (Some data)) s =
           s\<lparr> flowchartSvg := flowchart a, executionSteps := execution_steps a,
              complexityAnalysis := complexity_analysis a,
              optimizationSuggestions := optimization_suggestions a,
              memoryAnalysis := memory_analysis a,
              errorMsg := (if truthy (flowchart a) then errorMsg s else msg_error_generating),
              loading := False \<rparr>"
  using assms by (simp add: generateFlowchart_resume_def generateFlowchart_try_def Let_def)

text \<open>The defaulted flowchart is the empty string exactly when it is falsy.\<close>

lemma or_default_empty_iff:
  "or_default v (JStr []) = JStr [] \<longleftrightarrow> \<not> truthy (or_default v (JStr []))"
  by (cases v) (auto elim: truthy.elims)

subsection \<open>Playback\<close>

lemma tick_step:
  assumes "executionSteps s = JArr xs" "isPlaying s"
  shows "tick s = (if currentStep s < int (length xs) - 1
                   then s\<lparr>currentStep := currentStep s + 1\<rparr> else s)"
  using assms by (auto simp: tick_def ticker_installed_def interval_callback_def)

text \<open>
  From the idle cursor, Play and \<open>k\<close> ticks put the cursor at \<open>min (k - 1) (N - 1)\<close> for
  \<open>N \<ge> 1\<close> steps (the controls are on the page), and \<open>isPlaying\<close> is still set, however large \<open>k\<close> is: at \<open>N - 1\<close> the
  effect installs no interval, so the branch of the callback that would clear it never
  runs.
\<close>

lemma play_ticks:
  assumes "step_controls_rendered s" "executionSteps s = JArr xs"
    and "currentStep s = -1" "\<not> isPlaying s"
  shows "(tick ^^ k) (togglePlay s) =
           s\<lparr>isPlaying := True, currentStep := min (int k - 1) (int (length xs) - 1)\<rparr>"
proof (induction k)
  case 0
  have "min (-1) (int (length xs) - 1) = currentStep s"
    using assms by (cases xs) (simp_all add: step_controls_rendered_def)
  then show ?case using assms by (simp add: togglePlay_def)
next
  case (Suc k)
  let ?t = "s\<lparr>isPlaying := True, currentStep := min (int k - 1) (int (length xs) - 1)\<rparr>"
  have e: "executionSteps ?t = JArr xs" and p: "isPlaying ?t" using assms by simp_all
  have "(tick ^^ Suc k) (togglePlay s) = tick ?t" using Suc by simp
  also have "\<dots> = (if currentStep ?t < int (length xs) - 1
                       then ?t\<lparr>currentStep := currentStep ?t + 1\<rparr> else ?t)"
    by (rule tick_step [OF e p])
  also have "\<dots> = s\<lparr>isPlaying := True,
                     currentStep := min (int (Suc k) - 1) (int (length xs) - 1)\<rparr>"
    by (simp add: min_def)
  finally show ?case .
qed

section \<open>Submitting\<close>

text \<open>
  C1. When the code is empty or holds white space only, \<open>generateFlowchart\<close> sends no
  request (the second component is \<open>None\<close>), reports the error "Please enter some code."
  and changes nothing else: the new state is the old one with that message, so the
  flowchart, the execution steps, the cursor and the analysis slots are as before.
\<close>

theorem blank_code_is_rejected_locally:
  assumes "list_all is_space (code s)"
  shows "generateFlowchart_begin s = (s\<lparr>errorMsg := msg_enter_code\<rparr>, None)
       \<and> visible_result (fst (generateFlowchart_begin s)) = visible_result s
       \<and> currentStep (fst (generateFlowchart_begin s)) = currentStep s
       \<and> isPlaying (fst (generateFlowchart_begin s)) = isPlaying s"
  using assms by (simp add: generateFlowchart_begin_def js_trim_blank visible_result_def)

theorem blank_code_is_rejected_locally_witness:
  "list_all is_space (code (initial_session\<lparr>code := [0x20, 0x0A, 0x09]\<rparr>))
   \<and> generateFlowchart_begin (initial_session\<lparr>code := [0x20, 0x0A, 0x09]\<rparr>)
       = (initial_session\<lparr>code := [0x20, 0x0A, 0x09], errorMsg := msg_enter_code\<rparr>, None)"
proof -
  have h: "list_all is_space (code (initial_session\<lparr>code := [0x20, 0x0A, 0x09]\<rparr>))"
    by (simp add: is_space_def is_white_space_def is_line_terminator_def)
  show ?thesis
    using h blank_code_is_rejected_locally [OF h] by simp
qed

text \<open>
  C3. After a first submit has put a flowchart on the page, a second submit with other
  code is under way (\<open>loading\<close>, its request in flight) and has emptied the execution
  steps, yet the page still holds the flowchart of the first: \<open>generateFlowchart\<close> does
  not reset \<open>flowchartSvg\<close> before the request, as \<open>handleRefresh\<close> does.
\<close>

theorem stale_flowchart_survives_resubmit:
  "flowchartSvg (ui (run example_run initial_page)) = JStr (lit ''<svg/>'')
   \<and> loading (ui (run resubmit_run initial_page))
   \<and> inflight (run resubmit_run initial_page) = [request_of (lit ''print(2)'')]
   \<and> flowchartSvg (ui (run resubmit_run initial_page)) = JStr (lit ''<svg/>'')
   \<and> executionSteps (ui (run resubmit_run initial_page)) = JArr []"
  by (simp add: eval_defs resubmit_run_def request_of_def)

section \<open>Merging the response with the defaults\<close>

text \<open>
  C4, as the code has it. For a response with an ok status and a body that is not
  \<open>null\<close>: a missing \<open>complexity_analysis\<close> becomes the fixed object
  \<open>default_complexity\<close> and a missing \<open>memory_analysis\<close> the fixed object
  \<open>default_memory\<close>, whatever code was submitted. A missing \<open>optimization_suggestions\<close>
  becomes an object with a fixed list of suggestions and an \<open>optimized_code\<close> that is
  computed from the submitted code, by the replacement of its \<open>for ... in range(...):\<close>
  lines.
\<close>

theorem defaults_of_missing_fields:
  assumes "response_ok status" and "data \<noteq> JNull"
  shows "(missing data (lit ''complexity_analysis'') \<longrightarrow>
            complexityAnalysis (generateFlowchart_resume r (FetchResolved status (Some data)) s)
              = default_complexity)
       \<and> (missing data (lit ''memory_analysis'') \<longrightarrow>
            memoryAnalysis (generateFlowchart_resume r (FetchResolved status (Some data)) s)
              = default_memory)
       \<and> (missing data (lit ''optimization_suggestions'') \<longrightarrow>
            optimizationSuggestions
                (generateFlowchart_resume r (FetchResolved status (Some data)) s)
              = JObj [(lit ''suggestions'',
                       JArr [JStr (lit
                         ''Consider using a dictionary for faster lookups instead of nested loops.'')]),
                      (lit ''optimized_code'', JStr (replace_for_range (body_code r)))])"
  using assms
  by (simp add: resume_ok [OF assms(1) build_advancedData_not_null [OF assms(2)]]
        or_default_missing default_optimization_def)

theorem defaults_of_missing_fields_witness:
  "response_ok 200 \<and> example_response \<noteq> JNull
   \<and> missing example_response (lit ''complexity_analysis'')
   \<and> missing example_response (lit ''memory_analysis'')
   \<and> missing example_response (lit ''optimization_suggestions'')
   \<and> complexityAnalysis
       (generateFlowchart_resume (request_of (lit ''print(1)''))
          (FetchResolved 200 (Some example_response)) initial_session) = default_complexity
   \<and> memoryAnalysis
       (generateFlowchart_resume (request_of (lit ''print(1)''))
          (FetchResolved 200 (Some example_response)) initial_session) = default_memory
   \<and> optimizationSuggestions
       (generateFlowchart_resume (request_of (lit ''print(1)''))
          (FetchResolved 200 (Some example_response)) initial_session)
       = JObj [(lit ''suggestions'',
                JArr [JStr (lit
                  ''Consider using a dictionary for faster lookups instead of nested loops.'')]),
               (lit ''optimized_code'', JStr (lit ''print(1)''))]"
proof -
  have h1: "response_ok 200" by (simp add: response_ok_def)
  have h2: "example_response \<noteq> JNull" by (simp add: example_response_def)
  have m: "missing example_response (lit ''complexity_analysis'')"
    "missing example_response (lit ''memory_analysis'')"
    "missing example_response (lit ''optimization_suggestions'')"
    by (simp_all add: missing_def example_response_def lit_def)
  have c: "body_code (request_of (lit ''print(1)'')) = lit ''print(1)''"
    by (simp add: request_of_def)
  show ?thesis
    using h1 h2 m
      defaults_of_missing_fields [OF h1 h2, of "request_of (lit ''print(1)'')" initial_session]
    by (simp add: c replace_for_range_no_loop)
qed

text \<open>
  The same response to two submits that differ in their code gives two different
  default optimization objects.
\<close>

theorem default_optimization_depends_on_code:
  "missing example_response (lit ''optimization_suggestions'')
   \<and> optimizationSuggestions
         (generateFlowchart_resume (request_of (lit ''print(1)''))
            (FetchResolved 200 (Some example_response)) initial_session)
       \<noteq> optimizationSuggestions
           (generateFlowchart_resume (request_of (lit ''print(2)''))
              (FetchResolved 200 (Some example_response)) initial_session)"
  by (simp add: eval_defs request_of_def missing_def default_optimization_def
        for_range_regex_def)

text \<open>
  C5. A response with an ok status that has no \<open>complexity_analysis\<close> and has an
  \<open>optimization_suggestions\<close> value (an object, or any other truthy value) leaves the
  session with the local default complexity object and with the server's optimization
  value: the missing field does not affect the other slot.
\<close>

theorem slots_merge_independently:
  assumes "response_ok status"
    and "read_field data (lit ''complexity_analysis'') = None"
    and "read_field data (lit ''optimization_suggestions'') = Some v"
    and "truthy v"
  shows "complexityAnalysis (generateFlowchart_resume r (FetchResolved status (Some data)) s)
           = default_complexity
       \<and> optimizationSuggestions
             (generateFlowchart_resume r (FetchResolved status (Some data)) s) = v"
proof -
  have n: "data \<noteq> JNull" using assms(3) by auto
  show ?thesis
    using assms(2-4)
    by (simp add: resume_ok [OF assms(1) build_advancedData_not_null [OF n]])
qed

theorem slots_merge_independently_witness:
  "response_ok 200
   \<and> read_field (JObj [(lit ''flowchart'', JStr (lit ''<svg/>'')),
                       (lit ''optimization_suggestions'', JObj [])])
        (lit ''complexity_analysis'') = None
   \<and> read_field (JObj [(lit ''flowchart'', JStr (lit ''<svg/>'')),
                       (lit ''optimization_suggestions'', JObj [])])
        (lit ''optimization_suggestions'') = Some (JObj [])
   \<and> truthy (JObj [])
   \<and> complexityAnalysis
        (generateFlowchart_resume (request_of (lit ''print(1)''))
           (FetchResolved 200
              (Some (JObj [(lit ''flowchart'', JStr (lit ''<svg/>'')),
                           (lit ''optimization_suggestions'', JObj [])])))
           initial_session) = default_complexity
   \<and> optimizationSuggestions
        (generateFlowchart_resume (request_of (lit ''print(1)''))
           (FetchResolved 200
              (Some (JObj [(lit ''flowchart'', JStr (lit ''<svg/>'')),
                           (lit ''optimization_suggestions'', JObj [])])))
           initial_session) = JObj []"
proof -
  let ?d = "JObj [(lit ''flowchart'', JStr (lit ''<svg/>'')),
                  (lit ''optimization_suggestions'', JObj [])]"
  have h1: "response_ok 200" by (simp add: response_ok_def)
  have h2: "read_field ?d (lit ''complexity_analysis'') = None" by (simp add: lit_def)
  have h3: "read_field ?d (lit ''optimization_suggestions'') = Some (JObj [])"
    by (simp add: lit_def)
  have h4: "truthy (JObj [])" by simp
  show ?thesis
    using h1 h2 h3 h4
      slots_merge_independently [OF h1 h2 h3 h4, of "request_of (lit ''print(1)'')"
        initial_session]
    by simp
qed

text \<open>
  C6. A response with an ok status whose flowchart, after the default \<open>""\<close> has been
  applied, is the empty string ends the call with the error "Error generating
  flowchart." and \<open>loading\<close> cleared, whatever the other fields of the body are. The
  message differs from the ones of a timeout and of a transport failure. (The body is
  not \<open>null\<close>: a \<open>null\<close> body has no fields to default.)
\<close>

theorem empty_flowchart_is_generation_failed:
  assumes "response_ok status" and "data \<noteq> JNull"
    and "or_default (read_field data (lit ''flowchart'')) (JStr []) = JStr []"
  shows "errorMsg (generateFlowchart_resume r (FetchResolved status (Some data)) s)
           = msg_error_generating
       \<and> \<not> loading (generateFlowchart_resume r (FetchResolved status (Some data)) s)
       \<and> msg_error_generating \<noteq> [] \<and> msg_error_generating \<noteq> msg_timed_out
       \<and> msg_error_generating \<noteq> msg_server_failed"
  using assms(3)
  by (simp add: resume_ok [OF assms(1) build_advancedData_not_null [OF assms(2)]]
        msg_error_generating_def msg_timed_out_def msg_server_failed_def lit_def)

theorem empty_flowchart_is_generation_failed_witness:
  "response_ok 200
   \<and> JObj [(lit ''flowchart'', JStr []), (lit ''execution_steps'', JArr [JObj []])] \<noteq> JNull
   \<and> or_default
        (read_field
           (JObj [(lit ''flowchart'', JStr []), (lit ''execution_steps'', JArr [JObj []])])
           (lit ''flowchart'')) (JStr []) = JStr []
   \<and> errorMsg
        (generateFlowchart_resume (request_of (lit ''print(1)''))
           (FetchResolved 200
              (Some (JObj [(lit ''flowchart'', JStr []),
                           (lit ''execution_steps'', JArr [JObj []])])))
           initial_session) = msg_error_generating"
proof -
  let ?d = "JObj [(lit ''flowchart'', JStr []), (lit ''execution_steps'', JArr [JObj []])]"
  have h1: "response_ok 200" by (simp add: response_ok_def)
  have h2: "?d \<noteq> JNull" by simp
  have h3: "or_default (read_field ?d (lit ''flowchart'')) (JStr []) = JStr []"
    by (simp add: lit_def)
  show ?thesis
    using h1 h2 h3
      empty_flowchart_is_generation_failed [OF h1 h2 h3, of "request_of (lit ''print(1)'')"
        initial_session]
    by simp
qed

text \<open>
  C10. In that same case, where the flowchart is empty and the error "Error generating
  flowchart." is reported, the other four slots have been written all the same: each
  holds the server's value when the body has a truthy one, and its default otherwise.
\<close>

theorem generation_failed_still_writes_slots:
  assumes "response_ok status" and "data \<noteq> JNull"
    and "or_default (read_field data (lit ''flowchart'')) (JStr []) = JStr []"
  shows "errorMsg (generateFlowchart_resume r (FetchResolved status (Some data)) s)
           = msg_error_generating
       \<and> executionSteps (generateFlowchart_resume r (FetchResolved status (Some data)) s)
           = or_default (read_field data (lit ''execution_steps'')) (JArr [])
       \<and> complexityAnalysis (generateFlowchart_resume r (FetchResolved status (Some data)) s)
           = or_default (read_field data (lit ''complexity_analysis'')) default_complexity
       \<and> optimizationSuggestions
             (generateFlowchart_resume r (FetchResolved status (Some data)) s)
           = or_default (read_field data (lit ''optimization_suggestions''))
               (default_optimization (body_code r))
       \<and> memoryAnalysis (generateFlowchart_resume r (FetchResolved status (Some data)) s)
           = or_default (read_field data (lit ''memory_analysis'')) default_memory"
  using assms(3)
  by (simp add: resume_ok [OF assms(1) build_advancedData_not_null [OF assms(2)]])

theorem generation_failed_still_writes_slots_witness:
  "response_ok 200
   \<and> JObj [(lit ''execution_steps'', JArr [JObj []])] \<noteq> JNull
   \<and> or_default (read_field (JObj [(lit ''execution_steps'', JArr [JObj []])])
        (lit ''flowchart'')) (JStr []) = JStr []
   \<and> executionSteps (ui (run example_run initial_page)) \<noteq> JArr [JObj []]
   \<and> executionSteps
        (generateFlowchart_resume (request_of (lit ''print(1)''))
           (FetchResolved 200 (Some (JObj [(lit ''execution_steps'', JArr [JObj []])])))
           (ui (run example_run initial_page))) = JArr [JObj []]
   \<and> complexityAnalysis
        (generateFlowchart_resume (request_of (lit ''print(1)''))
           (FetchResolved 200 (Some (JObj [(lit ''execution_steps'', JArr [JObj []])])))
           (ui (run example_run initial_page))) = default_complexity"
proof -
  let ?d = "JObj [(lit ''execution_steps'', JArr [JObj []])]"
  have h1: "response_ok 200" by (simp add: response_ok_def)
  have h2: "?d \<noteq> JNull" by simp
  have h3: "or_default (read_field ?d (lit ''flowchart'')) (JStr []) = JStr []"
    by (simp add: lit_def)
  have e: "executionSteps (ui (run example_run initial_page)) \<noteq> JArr [JObj []]"
    by (simp add: eval_defs example_step_def)
  show ?thesis
    using h1 h2 h3 e
      generation_failed_still_writes_slots [OF h1 h2 h3, of "request_of (lit ''print(1)'')"
        "ui (run example_run initial_page)"]
    by (simp add: lit_def)
qed




text \<open>
  C9, as the code has it. \<open>generateFlowchart\<close> carries no generation counter and
  discards nothing: when the response of any request in flight arrives with an ok status
  and a body that is not \<open>null\<close>, the five result slots become the merge of that
  response, whatever the page showed before. So the late response of a superseded
  request replaces the result of the newer one.
\<close>

theorem late_response_overwrites_result:
  assumes "i < length (inflight p)" and "response_ok status" and "data \<noteq> JNull"
  shows "visible_result (ui (dispatch p (Settle i (FetchResolved status (Some data)))))
           = (or_default (read_field data (lit ''flowchart'')) (JStr []),
              or_default (read_field data (lit ''execution_steps'')) (JArr []),
              or_default (read_field data (lit ''complexity_analysis'')) default_complexity,
              or_default (read_field data (lit ''optimization_suggestions''))
                (default_optimization (body_code (inflight p ! i))),
              or_default (read_field data (lit ''memory_analysis'')) default_memory)"
  using assms(1)
  by (simp add: resume_ok [OF assms(2) build_advancedData_not_null [OF assms(3)]]
        visible_result_def)

theorem late_response_overwrites_result_witness:
  "0 < length (inflight (run overlap_run initial_page)) \<and> response_ok 200
   \<and> response_a \<noteq> JNull
   \<and> flowchartSvg (ui (run overlap_run initial_page)) = JStr (lit ''<svg>b</svg>'')
   \<and> fst (visible_result
        (ui (dispatch (run overlap_run initial_page)
               (Settle 0 (FetchResolved 200 (Some response_a))))))
       = JStr (lit ''<svg>a</svg>'')"
proof -
  have h1: "0 < length (inflight (run overlap_run initial_page))"
    by (simp add: eval_defs overlap_run_def)
  have h2: "response_ok 200" by (simp add: response_ok_def)
  have h3: "response_a \<noteq> JNull" by (simp add: response_a_def)
  have b: "flowchartSvg (ui (run overlap_run initial_page)) = JStr (lit ''<svg>b</svg>'')"
    by (simp add: eval_defs overlap_run_def response_b_def)
  have f: "or_default (read_field response_a (lit ''flowchart'')) (JStr [])
             = JStr (lit ''<svg>a</svg>'')"
    by (simp add: response_a_def lit_def)
  show ?thesis
    using h1 h2 h3 b late_response_overwrites_result [OF h1 h2 h3]
    by (simp add: f)
qed

text \<open>
  The first request (code \<open>a\<close>) is superseded by the second (code \<open>b\<close>), which has
  completed: the page is not loading and shows the flowchart of \<open>b\<close>. The response to
  the first then arrives and the page shows the flowchart of \<open>a\<close>.
\<close>

theorem stale_response_overwrites_newer_result:
  "inflight (run overlap_run initial_page) = [request_of (lit ''a'')]
   \<and> \<not> loading (ui (run overlap_run initial_page))
   \<and> flowchartSvg (ui (run overlap_run initial_page)) = JStr (lit ''<svg>b</svg>'')
   \<and> flowchartSvg (ui (dispatch (run overlap_run initial_page) stale_arrival))
       = JStr (lit ''<svg>a</svg>'')
   \<and> visible_result (ui (dispatch (run overlap_run initial_page) stale_arrival))
       \<noteq> visible_result (ui (run overlap_run initial_page))"
  by (simp add: eval_defs overlap_run_def stale_arrival_def response_a_def response_b_def
        visible_result_def request_of_def)

section \<open>Playback\<close>

text \<open>
  C2. With one execution step (\<open>N = 1\<close>) and the idle cursor, Play and one tick put the
  cursor at \<open>0 = N - 1\<close>, as \<open>min (k - 1) (N - 1)\<close> says, but \<open>isPlaying\<close> is still set:
  no interval is installed at the last step, and every later tick leaves the state as
  it is.
\<close>

theorem autoplay_never_clears_isPlaying:
  "currentStep (ui (run example_run initial_page)) = -1
   \<and> \<not> isPlaying (ui (run example_run initial_page))
   \<and> executionSteps (ui (run example_run initial_page)) = JArr [example_step]
   \<and> currentStep (tick playing_session) = 0
   \<and> isPlaying (tick playing_session)
   \<and> \<not> ticker_installed (tick playing_session)
   \<and> tick (tick playing_session) = tick playing_session"
  by (simp add: eval_defs playing_session_def togglePlay_def step_controls_rendered_def
        tick_def ticker_installed_def interval_callback_def)

text \<open>
  C7, as the code has it. With the step controls on the page and \<open>N\<close> execution steps,
  a click on Step Forward below \<open>N - 1\<close> moves the cursor up by one and clears
  \<open>isPlaying\<close>, and a click on Step Back above \<open>-1\<close> moves it down by one and clears
  \<open>isPlaying\<close>; no other field changes, and a cursor in \<open>[-1, N - 1]\<close> stays there. At
  \<open>N - 1\<close> the Step Forward button, and at \<open>-1\<close> the Step Back button, is disabled:
  the click changes nothing, so the position is kept and \<open>isPlaying\<close> is not cleared.
  The functions are total: there is no error case.
\<close>

theorem manual_steps_move_or_are_disabled:
  assumes "step_controls_rendered s" and "executionSteps s = JArr xs"
  shows "stepForward s =
           (if currentStep s < int (length xs) - 1
            then s\<lparr>isPlaying := False, currentStep := currentStep s + 1\<rparr> else s)
       \<and> stepBack s =
           (if -1 < currentStep s
            then s\<lparr>isPlaying := False, currentStep := currentStep s - 1\<rparr> else s)
       \<and> (-1 \<le> currentStep s \<and> currentStep s \<le> int (length xs) - 1 \<longrightarrow>
            -1 \<le> currentStep (stepForward s)
            \<and> currentStep (stepForward s) \<le> int (length xs) - 1
            \<and> -1 \<le> currentStep (stepBack s)
            \<and> currentStep (stepBack s) \<le> int (length xs) - 1)"
  using assms by (auto simp: stepForward_def stepBack_def min_def max_def)

theorem manual_steps_move_or_are_disabled_witness:
  "step_controls_rendered playing_session
   \<and> executionSteps playing_session = JArr [example_step]
   \<and> currentStep playing_session = -1 \<and> isPlaying playing_session
   \<and> stepForward playing_session = playing_session\<lparr>isPlaying := False, currentStep := 0\<rparr>
   \<and> stepBack playing_session = playing_session
   \<and> -1 \<le> currentStep (stepForward playing_session)
   \<and> currentStep (stepForward playing_session) \<le> 0"
proof -
  have h1: "step_controls_rendered playing_session"
    by (simp add: eval_defs playing_session_def togglePlay_def step_controls_rendered_def)
  have h2: "executionSteps playing_session = JArr [example_step]"
    by (simp add: eval_defs playing_session_def togglePlay_def step_controls_rendered_def)
  have c: "currentStep playing_session = -1" "isPlaying playing_session"
    by (simp_all add: eval_defs playing_session_def togglePlay_def
          step_controls_rendered_def)
  note a = manual_steps_move_or_are_disabled [OF h1 h2]
  have f: "stepForward playing_session
             = playing_session\<lparr>isPlaying := False, currentStep := 0\<rparr>"
    using a c(1) by simp
  have k: "stepBack playing_session = playing_session"
    using a c(1) by simp
  show ?thesis
    using h1 h2 c by (simp add: f k)
qed

text \<open>
  While autoplay is on with the cursor at \<open>-1\<close>, a click on Step Back leaves
  \<open>isPlaying\<close> set; so does a click on Step Forward once the cursor is at the last
  step.
\<close>

theorem disabled_step_buttons_do_not_pause:
  "currentStep playing_session = -1 \<and> isPlaying playing_session
   \<and> stepBack playing_session = playing_session
   \<and> isPlaying (stepBack playing_session)
   \<and> executionSteps (tick playing_session) = JArr [example_step]
   \<and> currentStep (tick playing_session) = 0 \<and> isPlaying (tick playing_session)
   \<and> stepForward (tick playing_session) = tick playing_session
   \<and> isPlaying (stepForward (tick playing_session))"
  by (simp add: eval_defs playing_session_def togglePlay_def step_controls_rendered_def
        tick_def ticker_installed_def interval_callback_def stepBack_def stepForward_def)

end
